theory Spec2Isabelle
  imports Main "HOL-Library.Word"
begin

unbundle bit_operations_syntax

section \<open>The safe expression evaluator of app.py\<close>

text \<open>
  The evaluator of \<^verbatim>\<open>app.py\<close> hands the text to Python's own parser
  (\<^verbatim>\<open>ast.parse(expr, mode="eval")\<close>), walks the tree once for forbidden node
  classes and then evaluates it with \<^verbatim>\<open>_eval_node\<close>. Names that start with an
  underscore in the source lose it here (\<^verbatim>\<open>_eval_node\<close> is \<open>eval_node\<close>).

  Two parts of the Python runtime are outside the repository and are treated as follows.
  \<^item> The parser: \<open>safe_eval\<close> takes the outcome of \<^verbatim>\<open>ast.parse\<close> (a syntax
    error or a tree), and each text that is named below is given with its tree.
  \<^item> Floating point: a Python float is a binary64 bit pattern (\<open>64 word\<close>); the
    arithmetic on floats and complex numbers and the functions of the \<^verbatim>\<open>math\<close>
    module are the fields of a \<open>host\<close> record that every function takes as a parameter.
    Integer arithmetic, the tests for a zero divisor, sign changes and arities are written
    out, since they are exact.
\<close>

subsection \<open>Values and constants\<close>

text \<open>The numbers that evaluation produces: \<^verbatim>\<open>int\<close>, \<^verbatim>\<open>bool\<close> (a subclass of
  \<^verbatim>\<open>int\<close>), \<^verbatim>\<open>float\<close> and \<^verbatim>\<open>complex\<close> (real and imaginary part).\<close>

datatype pyval =
    VInt int
  | VBool bool
  | VFloat "64 word"
  | VComplex "64 word" "64 word"

text \<open>What \<^verbatim>\<open>ast.Constant.value\<close> can hold.\<close>

datatype pyconst =
    CInt int
  | CBool bool
  | CFloat "64 word"
  | CComplex "64 word" "64 word"
  | CStr string
  | CBytes string
  | CNone
  | CEllipsis

text \<open>The exceptions that the numeric operations of the runtime raise.\<close>

datatype pyexc = ZeroDivisionError | TypeError | ValueError | OverflowError

subsection \<open>The syntax tree\<close>

datatype operator =
    Add | Sub | Mult | Div | FloorDiv | Mod | Power
  | MatMult | LShift | RShift | BitOr | BitXor | BitAnd

datatype unaryop = UAdd | USub | Invert | LNot

text \<open>
  The node classes that the evaluator tells apart are constructors of their own; every
  other class of the \<^verbatim>\<open>ast\<close> module is \<open>Other\<close> with its class name and its child
  nodes. A call carries its positional arguments and its keywords (name, or \<open>None\<close> for
  \<^verbatim>\<open>**kw\<close>, and value); a lambda carries the default values of its parameters and
  its body.
\<close>

datatype node =
    Expression node
  | Constant pyconst
  | BinOp node operator node
  | UnaryOp unaryop node
  | Call node "node list" "(string option \<times> node) list"
  | Name string
  | Attribute node string
  | Subscript node node
  | Lambda "node list" node
  | Other string "node list"

subsection \<open>The errors\<close>

text \<open>One constructor for each \<^verbatim>\<open>raise EvalError(...)\<close> of the source, in the order
  of the source, with what its message is formatted from.\<close>

datatype evalerror =
    Only_numeric_constants
  | Error_in_operation pyexc
  | Operator_not_supported operator
  | Unary_operator_not_supported unaryop
  | Bad_arguments_for string pyexc
  | Error_calling string pyexc
  | Function_not_allowed string
  | Only_direct_function_names
  | Unknown_identifier string
  | Unsupported_expression node
  | Syntax_error string
  | Disallowed_construct

text \<open>The error kinds of the specification (section 7) and the raise sites that fall under
  each: a text that does not parse; a node shape outside the whitelisted ones; a name that
  is in neither table; a \<^verbatim>\<open>TypeError\<close> of the called function (arity or argument
  type); a fault of an operator or function on its operand values. \<open>TooComplex\<close> has no
  raise site.\<close>

datatype kind =
    SyntaxError | DisallowedConstruct | UnknownIdentifier | UnknownFunction
  | BadArguments | OperationError | TooComplex

fun kind_of :: "evalerror \<Rightarrow> kind" where
  "kind_of Only_numeric_constants = DisallowedConstruct"
| "kind_of (Error_in_operation x) = OperationError"
| "kind_of (Operator_not_supported b) = DisallowedConstruct"
| "kind_of (Unary_operator_not_supported u) = DisallowedConstruct"
| "kind_of (Bad_arguments_for f x) = BadArguments"
| "kind_of (Error_calling f x) = OperationError"
| "kind_of (Function_not_allowed f) = UnknownFunction"
| "kind_of Only_direct_function_names = DisallowedConstruct"
| "kind_of (Unknown_identifier n) = UnknownIdentifier"
| "kind_of (Unsupported_expression n) = DisallowedConstruct"
| "kind_of (Syntax_error m) = SyntaxError"
| "kind_of Disallowed_construct = DisallowedConstruct"

subsection \<open>The runtime's numbers\<close>

datatype pyfunc =
    F_sin | F_cos | F_tan | F_asin | F_acos | F_atan | F_sqrt | F_log | F_log10
  | F_exp | F_pow | F_abs | F_floor | F_ceil | F_factorial | F_radians | F_degrees

text \<open>The part of the runtime that computes in floating point: an operator applied to
  operands of which one is a float or a complex number (or whose result is a float), and a
  function of the \<^verbatim>\<open>math\<close> module. Either may raise.\<close>

record host =
  float_op :: "operator \<Rightarrow> pyval \<Rightarrow> pyval \<Rightarrow> pyexc + pyval"
  math_fn :: "pyfunc \<Rightarrow> pyval list \<Rightarrow> pyexc + pyval"

text \<open>An \<^verbatim>\<open>int\<close> or \<^verbatim>\<open>bool\<close> as an integer.\<close>

fun int_like :: "pyval \<Rightarrow> int option" where
  "int_like (VInt i) = Some i"
| "int_like (VBool b) = Some (if b then 1 else 0)"
| "int_like (VFloat w) = None"
| "int_like (VComplex re im) = None"

definition float_zero :: "64 word \<Rightarrow> bool" where
  "float_zero w \<longleftrightarrow> w = 0 \<or> w = 0x8000000000000000"

text \<open>\<^verbatim>\<open>x == 0\<close> for a number: \<open>0\<close>, \<open>False\<close>, \<open>0.0\<close>, \<open>-0.0\<close> and the
  complex zeros.\<close>

fun is_zero :: "pyval \<Rightarrow> bool" where
  "is_zero (VInt i) = (i = 0)"
| "is_zero (VBool b) = (\<not> b)"
| "is_zero (VFloat w) = float_zero w"
| "is_zero (VComplex re im) = (float_zero re \<and> float_zero im)"

fun is_complex :: "pyval \<Rightarrow> bool" where
  "is_complex (VComplex re im) = True"
| "is_complex v = False"

text \<open>\<^verbatim>\<open>operator.add\<close>, \<^verbatim>\<open>sub\<close>, \<^verbatim>\<open>mul\<close>: exact on integers.\<close>

definition py_add :: "host \<Rightarrow> pyval \<Rightarrow> pyval \<Rightarrow> pyexc + pyval" where
  "py_add h a b =
     (case (int_like a, int_like b) of
        (Some x, Some y) \<Rightarrow> Inr (VInt (x + y))
      | _ \<Rightarrow> float_op h Add a b)"

definition py_sub :: "host \<Rightarrow> pyval \<Rightarrow> pyval \<Rightarrow> pyexc + pyval" where
  "py_sub h a b =
     (case (int_like a, int_like b) of
        (Some x, Some y) \<Rightarrow> Inr (VInt (x - y))
      | _ \<Rightarrow> float_op h Sub a b)"

definition py_mul :: "host \<Rightarrow> pyval \<Rightarrow> pyval \<Rightarrow> pyexc + pyval" where
  "py_mul h a b =
     (case (int_like a, int_like b) of
        (Some x, Some y) \<Rightarrow> Inr (VInt (x * y))
      | _ \<Rightarrow> float_op h Mult a b)"

text \<open>\<^verbatim>\<open>operator.truediv\<close>: a zero divisor raises for every numeric type; otherwise
  the quotient is a float (or complex).\<close>

definition py_truediv :: "host \<Rightarrow> pyval \<Rightarrow> pyval \<Rightarrow> pyexc + pyval" where
  "py_truediv h a b =
     (if is_zero b then Inl ZeroDivisionError else float_op h Div a b)"

text \<open>\<^verbatim>\<open>operator.floordiv\<close> and \<^verbatim>\<open>operator.mod\<close>: not defined on complex numbers;
  a zero divisor raises; on integers the quotient is rounded down and the remainder has the
  sign of the divisor, as \<open>div\<close> and \<open>mod\<close> on \<open>int\<close> are.\<close>

definition py_floordiv :: "host \<Rightarrow> pyval \<Rightarrow> pyval \<Rightarrow> pyexc + pyval" where
  "py_floordiv h a b =
     (if is_complex a \<or> is_complex b then Inl TypeError
      else if is_zero b then Inl ZeroDivisionError
      else case (int_like a, int_like b) of
        (Some x, Some y) \<Rightarrow> Inr (VInt (x div y))
      | _ \<Rightarrow> float_op h FloorDiv a b)"

definition py_mod :: "host \<Rightarrow> pyval \<Rightarrow> pyval \<Rightarrow> pyexc + pyval" where
  "py_mod h a b =
     (if is_complex a \<or> is_complex b then Inl TypeError
      else if is_zero b then Inl ZeroDivisionError
      else case (int_like a, int_like b) of
        (Some x, Some y) \<Rightarrow> Inr (VInt (x mod y))
      | _ \<Rightarrow> float_op h Mod a b)"

text \<open>\<^verbatim>\<open>operator.pow\<close>: an integer to a non-negative integer power is exact; to a negative
  power it is a float, and zero raises.\<close>

definition py_pow :: "host \<Rightarrow> pyval \<Rightarrow> pyval \<Rightarrow> pyexc + pyval" where
  "py_pow h a b =
     (case (int_like a, int_like b) of
        (Some x, Some y) \<Rightarrow>
          if 0 \<le> y then Inr (VInt (x ^ nat y))
          else if x = 0 then Inl ZeroDivisionError
          else float_op h Power a b
      | _ \<Rightarrow> float_op h Power a b)"

definition sign_bit :: "64 word" where
  "sign_bit = 0x8000000000000000"

text \<open>\<^verbatim>\<open>-x\<close>: an integer is negated (a \<^verbatim>\<open>bool\<close> becomes an \<^verbatim>\<open>int\<close>), a float has
  its sign bit flipped.\<close>

fun py_neg :: "pyval \<Rightarrow> pyval" where
  "py_neg (VInt i) = VInt (- i)"
| "py_neg (VBool b) = VInt (- (if b then 1 else 0))"
| "py_neg (VFloat w) = VFloat (w XOR sign_bit)"
| "py_neg (VComplex re im) = VComplex (re XOR sign_bit) (im XOR sign_bit)"

text \<open>The number of positional arguments that each whitelisted function takes; any other
  number is a \<^verbatim>\<open>TypeError\<close>.\<close>

fun arity_ok :: "pyfunc \<Rightarrow> nat \<Rightarrow> bool" where
  "arity_ok F_log n = (n = 1 \<or> n = 2)"
| "arity_ok F_pow n = (n = 2)"
| "arity_ok f n = (n = 1)"

text \<open>\<^verbatim>\<open>func(*args)\<close>: the arity first; \<^verbatim>\<open>abs\<close>, \<^verbatim>\<open>math.floor\<close>,
  \<^verbatim>\<open>math.ceil\<close> and \<^verbatim>\<open>math.factorial\<close> are exact on integers (the factorial of a
  negative integer is a \<^verbatim>\<open>ValueError\<close>, and an argument beyond a C \<^verbatim>\<open>long\<close> is left
  to the platform); \<^verbatim>\<open>abs\<close> of a float clears the sign bit; the rest is floating
  point.\<close>

fun call_func :: "host \<Rightarrow> pyfunc \<Rightarrow> pyval list \<Rightarrow> pyexc + pyval" where
  "call_func h f args =
     (if \<not> arity_ok f (length args) then Inl TypeError
      else case (f, args) of
        (F_abs, [VFloat w]) \<Rightarrow> Inr (VFloat (w AND NOT sign_bit))
      | (F_abs, [v]) \<Rightarrow>
          (case int_like v of Some i \<Rightarrow> Inr (VInt \<bar>i\<bar>) | None \<Rightarrow> math_fn h f args)
      | (F_floor, [v]) \<Rightarrow>
          (case int_like v of Some i \<Rightarrow> Inr (VInt i) | None \<Rightarrow> math_fn h f args)
      | (F_ceil, [v]) \<Rightarrow>
          (case int_like v of Some i \<Rightarrow> Inr (VInt i) | None \<Rightarrow> math_fn h f args)
      | (F_factorial, [v]) \<Rightarrow>
          (case int_like v of
             Some i \<Rightarrow>
               if i < 0 then Inl ValueError
               else if i < 2 ^ 31 then Inr (VInt (fact (nat i)))
               else math_fn h f args
           | None \<Rightarrow> math_fn h f args)
      | _ \<Rightarrow> math_fn h f args)"

subsection \<open>The whitelists\<close>

definition allowed_binops ::
  "(operator \<times> (host \<Rightarrow> pyval \<Rightarrow> pyval \<Rightarrow> pyexc + pyval)) list" where
  "allowed_binops =
     [(Add, py_add), (Sub, py_sub), (Mult, py_mul), (Div, py_truediv),
      (FloorDiv, py_floordiv), (Mod, py_mod), (Power, py_pow)]"

definition allowed_unaryops :: "(unaryop \<times> (pyval \<Rightarrow> pyval)) list" where
  "allowed_unaryops = [(UAdd, \<lambda>x. x), (USub, \<lambda>x. py_neg x)]"

definition math_funcs :: "(string \<times> pyfunc) list" where
  "math_funcs =
     [(''sin'', F_sin), (''cos'', F_cos), (''tan'', F_tan), (''asin'', F_asin),
      (''acos'', F_acos), (''atan'', F_atan), (''sqrt'', F_sqrt), (''log'', F_log),
      (''log10'', F_log10), (''exp'', F_exp), (''pow'', F_pow), (''abs'', F_abs),
      (''floor'', F_floor), (''ceil'', F_ceil), (''factorial'', F_factorial),
      (''radians'', F_radians), (''degrees'', F_degrees)]"

text \<open>\<^verbatim>\<open>math.pi\<close> and \<^verbatim>\<open>math.e\<close> as binary64.\<close>

definition constants :: "(string \<times> pyval) list" where
  "constants =
     [(''pi'', VFloat 0x400921FB54442D18), (''e'', VFloat 0x4005BF0A8B145769)]"

subsection \<open>The evaluator\<close>

text \<open>\<^verbatim>\<open>isinstance(node.value, (int, float))\<close>: true of \<^verbatim>\<open>int\<close>, \<^verbatim>\<open>float\<close> and of
  \<^verbatim>\<open>bool\<close>, which is a subclass of \<^verbatim>\<open>int\<close>; the value is returned as it is.\<close>

fun numeric_constant :: "pyconst \<Rightarrow> pyval option" where
  "numeric_constant (CInt i) = Some (VInt i)"
| "numeric_constant (CBool b) = Some (VBool b)"
| "numeric_constant (CFloat w) = Some (VFloat w)"
| "numeric_constant c = None"

text \<open>The list comprehension over the arguments: the values in order, or the first
  error.\<close>

fun collect :: "('e + 'a) list \<Rightarrow> 'e + 'a list" where
  "collect [] = Inr []"
| "collect (Inl e # rs) = Inl e"
| "collect (Inr v # rs) = (case collect rs of Inl e \<Rightarrow> Inl e | Inr vs \<Rightarrow> Inr (v # vs))"

text \<open>\<^verbatim>\<open>_eval_node\<close>. The branch for \<^verbatim>\<open>ast.Num\<close> is left out: from Python 3.8 on
  the parser builds \<^verbatim>\<open>ast.Constant\<close> for every literal, and that branch comes first.
  The keywords of a call are never read.\<close>

fun eval_node :: "host \<Rightarrow> node \<Rightarrow> evalerror + pyval" where
  "eval_node h (Expression body) = eval_node h body"
| "eval_node h (Constant c) =
     (case numeric_constant c of
        Some v \<Rightarrow> Inr v
      | None \<Rightarrow> Inl Only_numeric_constants)"
| "eval_node h (BinOp l op r) =
     (case eval_node h l of
        Inl e \<Rightarrow> Inl e
      | Inr left \<Rightarrow>
          (case eval_node h r of
             Inl e \<Rightarrow> Inl e
           | Inr right \<Rightarrow>
               (case map_of allowed_binops op of
                  Some func \<Rightarrow>
                    (case func h left right of
                       Inl x \<Rightarrow> Inl (Error_in_operation x)
                     | Inr v \<Rightarrow> Inr v)
                | None \<Rightarrow> Inl (Operator_not_supported op))))"
| "eval_node h (UnaryOp op operand) =
     (case eval_node h operand of
        Inl e \<Rightarrow> Inl e
      | Inr v \<Rightarrow>
          (case map_of allowed_unaryops op of
             Some func \<Rightarrow> Inr (func v)
           | None \<Rightarrow> Inl (Unary_operator_not_supported op)))"
| "eval_node h (Call fn args keywords) =
     (case fn of
        Name func_name \<Rightarrow>
          (case map_of math_funcs func_name of
             Some func \<Rightarrow>
               (case collect (map (eval_node h) args) of
                  Inl e \<Rightarrow> Inl e
                | Inr vs \<Rightarrow>
                    (case call_func h func vs of
                       Inl TypeError \<Rightarrow> Inl (Bad_arguments_for func_name TypeError)
                     | Inl x \<Rightarrow> Inl (Error_calling func_name x)
                     | Inr v \<Rightarrow> Inr v))
           | None \<Rightarrow> Inl (Function_not_allowed func_name))
      | _ \<Rightarrow> Inl Only_direct_function_names)"
| "eval_node h (Name n) =
     (case map_of constants n of
        Some v \<Rightarrow> Inr v
      | None \<Rightarrow> Inl (Unknown_identifier n))"
| "eval_node h (Attribute v a) = Inl (Unsupported_expression (Attribute v a))"
| "eval_node h (Subscript v s) = Inl (Unsupported_expression (Subscript v s))"
| "eval_node h (Lambda ds b) = Inl (Unsupported_expression (Lambda ds b))"
| "eval_node h (Other c ns) = Inl (Unsupported_expression (Other c ns))"

subsection \<open>The walk and the entry point\<close>

text \<open>The nodes that \<^verbatim>\<open>ast.walk\<close> yields: the node and all its descendants, the
  values of keywords and the defaults of lambdas among them. (The operator and context
  objects, which it also yields, are of none of the classes tested. \<^verbatim>\<open>ast.walk\<close> goes
  breadth first; the loop of \<open>safe_eval\<close> raises the same error at whichever node it
  stops, so only membership matters.)\<close>

fun walk :: "node \<Rightarrow> node list" where
  "walk (Expression body) = Expression body # walk body"
| "walk (Constant c) = [Constant c]"
| "walk (BinOp l op r) = BinOp l op r # walk l @ walk r"
| "walk (UnaryOp op operand) = UnaryOp op operand # walk operand"
| "walk (Call fn args keywords) =
     Call fn args keywords # walk fn @ concat (map walk args)
       @ concat (map (\<lambda>kw. walk (snd kw)) keywords)"
| "walk (Name n) = [Name n]"
| "walk (Attribute v a) = Attribute v a # walk v"
| "walk (Subscript v s) = Subscript v s # walk v @ walk s"
| "walk (Lambda ds b) = Lambda ds b # concat (map walk ds) @ walk b"
| "walk (Other c ns) = Other c ns # concat (map walk ns)"

text \<open>The \<^verbatim>\<open>isinstance\<close> test of the loop.\<close>

fun disallowed :: "node \<Rightarrow> bool" where
  "disallowed (Lambda ds b) = True"
| "disallowed (Other c ns) =
     (c \<in> set [''Import'', ''ImportFrom'', ''Global'', ''Nonlocal'', ''ClassDef'',
                ''FunctionDef''])"
| "disallowed n = False"

text \<open>\<^verbatim>\<open>safe_eval\<close>, on the outcome of \<^verbatim>\<open>ast.parse(expr, mode="eval")\<close>: the
  message of the \<^verbatim>\<open>SyntaxError\<close>, or the tree.\<close>

definition safe_eval :: "host \<Rightarrow> string + node \<Rightarrow> evalerror + pyval" where
  "safe_eval h parsed_or_error =
     (case parsed_or_error of
        Inl e \<Rightarrow> Inl (Syntax_error e)
      | Inr parsed \<Rightarrow>
          if list_ex disallowed (walk parsed) then Inl Disallowed_construct
          else eval_node h parsed)"

subsection \<open>Notions used in the statements\<close>

text \<open>A runtime without floating point, for closed examples on integers, which never
  reach either field.\<close>

definition integer_host :: host where
  "integer_host =
     \<lparr>float_op = (\<lambda>op a b. Inl TypeError), math_fn = (\<lambda>f args. Inl TypeError)\<rparr>"

text \<open>The nodes for which \<open>eval_node\<close> has no branch and reaches its last
  \<^verbatim>\<open>raise\<close>.\<close>

fun unsupported :: "node \<Rightarrow> bool" where
  "unsupported (Attribute v a) = True"
| "unsupported (Subscript v s) = True"
| "unsupported (Lambda ds b) = True"
| "unsupported (Other c ns) = True"
| "unsupported n = False"

text \<open>The nodes in operand, function and positional-argument position, at any depth: the
  positions that \<open>eval_node\<close> descends into or tests. The keywords of a call are not
  among them.\<close>

fun evaluated :: "node \<Rightarrow> node list" where
  "evaluated (Expression body) = Expression body # evaluated body"
| "evaluated (BinOp l op r) = BinOp l op r # evaluated l @ evaluated r"
| "evaluated (UnaryOp op operand) = UnaryOp op operand # evaluated operand"
| "evaluated (Call fn args keywords) =
     Call fn args keywords # evaluated fn @ concat (map evaluated args)"
| "evaluated n = [n]"



text \<open>Evaluation reaches a division, floor division or remainder whose divisor is zero:
  at the operation itself, or inside the sub-expression that \<open>eval_node\<close> evaluates
  next (the left operand; the right one once the left has a value; an argument once the
  function name is whitelisted and the arguments before it have values).\<close>

inductive hits_zero_division :: "host \<Rightarrow> node \<Rightarrow> bool" for h :: host where
  here: "eval_node h l = Inr a \<Longrightarrow> eval_node h r = Inr b \<Longrightarrow> is_zero b \<Longrightarrow>
         op \<in> {Div, FloorDiv, Mod} \<Longrightarrow> hits_zero_division h (BinOp l op r)"
| in_body: "hits_zero_division h body \<Longrightarrow> hits_zero_division h (Expression body)"
| in_left: "hits_zero_division h l \<Longrightarrow> hits_zero_division h (BinOp l op r)"
| in_right: "eval_node h l = Inr a \<Longrightarrow> hits_zero_division h r \<Longrightarrow>
         hits_zero_division h (BinOp l op r)"
| in_operand: "hits_zero_division h operand \<Longrightarrow> hits_zero_division h (UnaryOp op operand)"
| in_argument: "map_of math_funcs f = Some func \<Longrightarrow>
         collect (map (eval_node h) before) = Inr vs \<Longrightarrow> hits_zero_division h x \<Longrightarrow>
         hits_zero_division h (Call (Name f) (before @ x # after) kws)"

section \<open>Properties\<close>

subsection \<open>Errors of sub-expressions\<close>

lemma collect_error: "\<exists>r \<in> set rs. isl r \<Longrightarrow> isl (collect rs)"
  by (induction rs rule: collect.induct) (auto split: sum.splits)

lemma collect_append_error:
  "collect before = Inr vs \<Longrightarrow> collect (before @ Inl e # after) = Inl e"
  by (induction before arbitrary: vs rule: collect.induct) (auto split: sum.splits)

lemma unsupported_fails:
  "unsupported n \<Longrightarrow> eval_node h n = Inl (Unsupported_expression n)"
  by (cases n) simp_all

lemma evaluated_fails: "list_ex unsupported (evaluated t) \<Longrightarrow> isl (eval_node h t)"
proof (induction t)
  case (Call fn args kws)
  show ?case
  proof (cases fn)
    case (Name f)
    show ?thesis
    proof (cases "map_of math_funcs f")
      case None
      with Name show ?thesis by simp
    next
      case (Some func)
      from Call.prems Name obtain a
        where a: "a \<in> set args" "list_ex unsupported (evaluated a)"
        by (auto simp: list_ex_iff)
      then have "isl (eval_node h a)" using Call.IH(2) by blast
      with a have "isl (collect (map (eval_node h) args))"
        by (intro collect_error) auto
      with Name Some show ?thesis by (auto split: sum.splits)
    qed
  qed simp_all
qed (auto split: sum.splits option.splits)

subsection \<open>Disallowed constructs\<close>

text \<open>What the code does for the constructs that the specification names, as whole
  expressions: a text that the parser refuses (\<^verbatim>\<open>x=1\<close>, \<^verbatim>\<open>import os\<close>) is
  a syntax error, a lambda is refused by the walk, an attribute access and a subscript
  reach the last \<^verbatim>\<open>raise\<close> of the evaluator.\<close>

lemma named_constructs_rejected:
  "safe_eval h (Inl msg) = Inl (Syntax_error msg)"
  "safe_eval h (Inr (Expression (Lambda ds b))) = Inl Disallowed_construct"
  "safe_eval h (Inr (Expression (Attribute (Name ''os'') ''system'')))
     = Inl (Unsupported_expression (Attribute (Name ''os'') ''system''))"
  "safe_eval h (Inr (Expression (Subscript (Name ''a'') (Constant (CInt 0)))))
     = Inl (Unsupported_expression (Subscript (Name ''a'') (Constant (CInt 0))))"
  by (simp_all add: safe_eval_def)

text \<open>
  C1: \<^verbatim>\<open>abs(1, k=a[0])\<close> parses to a call of \<open>abs\<close> with the argument \<open>1\<close> and
  the keyword \<open>k\<close>, whose value is the subscript \<^verbatim>\<open>a[0]\<close>. The walk tests no
  subscript and the evaluator never reads the keywords of a call: the result is the number
  \<open>1\<close>, with a disallowed construct nested in the expression. The same subscript as a
  positional argument, \<^verbatim>\<open>abs(a[0])\<close>, is evaluated and reaches the last
  \<^verbatim>\<open>raise\<close>, an error of kind \<open>DisallowedConstruct\<close>, as the claim says.
\<close>

theorem keyword_hides_subscript:
  "safe_eval h (Inr (Expression
      (Call (Name ''abs'') [Constant (CInt 1)]
         [(Some ''k'', Subscript (Name ''a'') (Constant (CInt 0)))])))
     = Inr (VInt 1)
   \<and> safe_eval h (Inr (Expression
        (Call (Name ''abs'') [Subscript (Name ''a'') (Constant (CInt 0))] [])))
       = Inl (Unsupported_expression (Subscript (Name ''a'') (Constant (CInt 0))))
   \<and> kind_of (Unsupported_expression (Subscript (Name ''a'') (Constant (CInt 0))))
       = DisallowedConstruct"
  by (simp add: safe_eval_def math_funcs_def)

subsection \<open>Division by zero\<close>

lemma zero_divisor_raises:
  assumes "is_zero b" "op \<in> {Div, FloorDiv, Mod}"
  shows "\<exists>func x. map_of allowed_binops op = Some func \<and> func h a b = Inl x"
  using assms
  by (auto simp: allowed_binops_def py_truediv_def py_floordiv_def py_mod_def)

lemma hits_eval:
  "hits_zero_division h t \<Longrightarrow> \<exists>x. eval_node h t = Inl (Error_in_operation x)"
proof (induction rule: hits_zero_division.induct)
  case (here l a r b op)
  from zero_divisor_raises[OF here(3,4), of h a] obtain func x
    where "map_of allowed_binops op = Some func" "func h a b = Inl x" by blast
  with here show ?case by simp
next
  case (in_argument f func before vs x after kws)
  then obtain e where e: "eval_node h x = Inl (Error_in_operation e)" by blast
  with in_argument(2)
  have "collect (map (eval_node h) (before @ x # after)) = Inl (Error_in_operation e)"
    by (simp add: collect_append_error)
  with in_argument(1) show ?case by simp
qed auto

text \<open>
  C2: when evaluation reaches a division, a floor division or a remainder with a zero
  divisor (integer, boolean, float or complex), the exception of the runtime is caught at
  the operation and \<open>eval_node\<close> returns ``Error in operation'', an error of kind
  \<open>OperationError\<close>, which every enclosing node passes on unchanged; \<open>safe_eval\<close>
  returns the same error whenever its walk lets the tree through to evaluation.
\<close>

theorem zero_division_is_operation_error:
  "hits_zero_division h t \<Longrightarrow>
     \<exists>x. eval_node h t = Inl (Error_in_operation x)
        \<and> kind_of (Error_in_operation x) = OperationError
        \<and> safe_eval h (Inr t) =
            (if list_ex disallowed (walk t) then Inl Disallowed_construct
             else Inl (Error_in_operation x))"
  using hits_eval[of h t] by (auto simp: safe_eval_def)

text \<open>The instances: \<^verbatim>\<open>1/0\<close> and \<^verbatim>\<open>1 + abs(7 % False)\<close>.\<close>

theorem zero_division_is_operation_error_witness:
  "hits_zero_division integer_host
      (Expression (BinOp (Constant (CInt 1)) Div (Constant (CInt 0))))
   \<and> safe_eval integer_host
        (Inr (Expression (BinOp (Constant (CInt 1)) Div (Constant (CInt 0)))))
       = Inl (Error_in_operation ZeroDivisionError)
   \<and> hits_zero_division integer_host
        (Expression (BinOp (Constant (CInt 1)) Add
           (Call (Name ''abs'') [BinOp (Constant (CInt 7)) Mod (Constant (CBool False))] [])))
   \<and> safe_eval integer_host
        (Inr (Expression (BinOp (Constant (CInt 1)) Add
           (Call (Name ''abs'') [BinOp (Constant (CInt 7)) Mod (Constant (CBool False))] []))))
       = Inl (Error_in_operation ZeroDivisionError)"
proof -
  have h1: "hits_zero_division integer_host
      (Expression (BinOp (Constant (CInt 1)) Div (Constant (CInt 0))))"
    by (rule in_body, rule here[where a = "VInt 1" and b = "VInt 0"]) simp_all
  have "hits_zero_division integer_host
      (BinOp (Constant (CInt 7)) Mod (Constant (CBool False)))"
    by (rule here[where a = "VInt 7" and b = "VBool False"]) simp_all
  from in_argument[where f = "''abs''" and func = F_abs and before = "[]" and vs = "[]"
      and after = "[]" and kws = "[]", OF _ _ this]
  have "hits_zero_division integer_host
      (Call (Name ''abs'') [BinOp (Constant (CInt 7)) Mod (Constant (CBool False))] [])"
    by (simp add: math_funcs_def)
  then have h2: "hits_zero_division integer_host
        (Expression (BinOp (Constant (CInt 1)) Add
           (Call (Name ''abs'') [BinOp (Constant (CInt 7)) Mod (Constant (CBool False))] [])))"
    by (intro in_body in_right[where a = "VInt 1"]) simp_all
  from zero_division_is_operation_error[OF h1] zero_division_is_operation_error[OF h2]
  show ?thesis
    using h1 h2
    by (simp add: safe_eval_def allowed_binops_def py_truediv_def py_mod_def math_funcs_def)
qed

subsection \<open>Integer arithmetic\<close>







subsection \<open>Literals\<close>

lemma string_literal_rejected:
  "safe_eval h (Inr (Expression (Constant (CStr s)))) = Inl Only_numeric_constants"
  by (simp add: safe_eval_def)

text \<open>
  C4: the text \<^verbatim>\<open>True\<close> parses to the constant \<^verbatim>\<open>True\<close>, and
  \<^verbatim>\<open>isinstance(True, (int, float))\<close> holds, since \<^verbatim>\<open>bool\<close> is a subclass of
  \<^verbatim>\<open>int\<close>: the test that is meant to let numbers through lets the boolean through,
  and \<open>safe_eval\<close> returns it as the result instead of ``Only numeric constants are
  allowed.'', which a string literal gets (\<open>string_literal_rejected\<close>).
\<close>

theorem bool_literal_accepted:
  "safe_eval h (Inr (Expression (Constant (CBool True)))) = Inr (VBool True)"
  by (simp add: safe_eval_def)

text \<open>
  \<^verbatim>\<open>0x10\<close> parses to the integer constant 16, as \<^verbatim>\<open>16\<close> does: the tree does not
  keep the form of a literal, and the result is the number 16.
\<close>

theorem hex_literal_accepted:
  "safe_eval integer_host (Inr (Expression (Constant (CInt 16)))) = Inr (VInt 16)"
  by (simp add: safe_eval_def)

text \<open>
  C6, as the code has it: the literal forms are those of the parser, which reads
  hexadecimal, octal and binary integers and underscores between digits. Every
  \<^verbatim>\<open>int\<close> constant and every \<^verbatim>\<open>float\<close> constant evaluates to its own value,
  unchanged; a complex (imaginary) constant, a string, a bytes literal, \<^verbatim>\<open>None\<close>
  and \<^verbatim>\<open>...\<close> are rejected with ``Only numeric constants are allowed.'', an error
  of kind \<open>DisallowedConstruct\<close>.
\<close>

theorem numeric_literal_value:
  "safe_eval h (Inr (Expression (Constant (CInt i)))) = Inr (VInt i)
   \<and> safe_eval h (Inr (Expression (Constant (CFloat w)))) = Inr (VFloat w)
   \<and> safe_eval h (Inr (Expression (Constant (CComplex re im)))) = Inl Only_numeric_constants
   \<and> safe_eval h (Inr (Expression (Constant (CStr s)))) = Inl Only_numeric_constants
   \<and> safe_eval h (Inr (Expression (Constant (CBytes s)))) = Inl Only_numeric_constants
   \<and> safe_eval h (Inr (Expression (Constant CNone))) = Inl Only_numeric_constants
   \<and> safe_eval h (Inr (Expression (Constant CEllipsis))) = Inl Only_numeric_constants
   \<and> kind_of Only_numeric_constants = DisallowedConstruct"
  by (simp add: safe_eval_def)

text \<open>The instances: \<^verbatim>\<open>1_000\<close>, which parses to the constant 1000, the float
  \<^verbatim>\<open>0.5\<close> and the imaginary literal \<^verbatim>\<open>1j\<close>.\<close>

theorem numeric_literal_value_witness:
  "safe_eval integer_host (Inr (Expression (Constant (CInt 1000)))) = Inr (VInt 1000)
   \<and> safe_eval integer_host (Inr (Expression (Constant (CFloat 0x3FE0000000000000))))
       = Inr (VFloat 0x3FE0000000000000)
   \<and> safe_eval integer_host (Inr (Expression (Constant (CComplex 0 0x3FF0000000000000))))
       = Inl Only_numeric_constants"
  using numeric_literal_value[where h = integer_host and i = 1000
      and w = "0x3FE0000000000000" and re = 0 and im = "0x3FF0000000000000"]
  by simp

subsection \<open>Powers and functions\<close>

text \<open>
  C5: \<^verbatim>\<open>(-8) ** 0.5\<close> parses to the power of \<open>-8\<close> (the negated literal) and the
  float \<open>0.5\<close> (\<open>0x3FE0000000000000\<close>). The evaluator has no test of its own on the
  operands: the outcome is whatever the power of the runtime gives, an error only if that
  raises. Python 3 raises nothing here and gives a complex number.
\<close>

theorem negative_base_power_unchecked:
  "safe_eval h (Inr (Expression
      (BinOp (UnaryOp USub (Constant (CInt 8))) Power
         (Constant (CFloat 0x3FE0000000000000)))))
     = (case float_op h Power (VInt (- 8)) (VFloat 0x3FE0000000000000) of
          Inl x \<Rightarrow> Inl (Error_in_operation x)
        | Inr v \<Rightarrow> Inr v)"
  by (simp add: safe_eval_def allowed_binops_def allowed_unaryops_def py_pow_def)

text \<open>What the evaluator itself does for \<^verbatim>\<open>log\<close>: one or two positional arguments
  go to \<^verbatim>\<open>math.log\<close> as they are, any other number is a \<^verbatim>\<open>TypeError\<close>. The values
  are the runtime's floats.\<close>

lemma log_one_or_two_arguments:
  "call_func h F_log vs =
     (if length vs = 1 \<or> length vs = 2 then math_fn h F_log vs else Inl TypeError)"
  by (cases vs rule: list.exhaust; cases "tl vs"; cases "tl (tl vs)") auto

text \<open>
  C8: \<^verbatim>\<open>factorial(5)\<close> is the integer 120 (a \<open>VInt\<close>, not a \<open>VFloat\<close>);
  \<^verbatim>\<open>factorial(-1)\<close>, whose argument is the negated literal, makes
  \<^verbatim>\<open>math.factorial\<close> raise \<^verbatim>\<open>ValueError\<close>, which comes back as ``Error calling
  factorial'', an error of kind \<open>OperationError\<close>. So does every negative integer
  argument, and a non-negative one (within a C \<^verbatim>\<open>long\<close> on every platform) gives its
  factorial as an integer.
\<close>

theorem factorial_examples:
  "safe_eval h (Inr (Expression (Call (Name ''factorial'') [Constant (CInt 5)] [])))
     = Inr (VInt 120)
   \<and> safe_eval h (Inr (Expression
        (Call (Name ''factorial'') [UnaryOp USub (Constant (CInt 1))] [])))
       = Inl (Error_calling ''factorial'' ValueError)
   \<and> kind_of (Error_calling ''factorial'' ValueError) = OperationError
   \<and> (i < 0 \<longrightarrow> call_func h F_factorial [VInt i] = Inl ValueError)
   \<and> (0 \<le> i \<and> i < 2 ^ 31 \<longrightarrow>
        call_func h F_factorial [VInt i] = Inr (VInt (fact (nat i))))"
  by (simp add: safe_eval_def math_funcs_def allowed_unaryops_def fact_numeral)

text \<open>The instances: the two texts, and the arguments \<open>-3\<close> and \<open>3\<close>.\<close>

theorem factorial_examples_witness:
  "safe_eval integer_host
      (Inr (Expression (Call (Name ''factorial'') [Constant (CInt 5)] [])))
     = Inr (VInt 120)
   \<and> safe_eval integer_host (Inr (Expression
        (Call (Name ''factorial'') [UnaryOp USub (Constant (CInt 1))] [])))
       = Inl (Error_calling ''factorial'' ValueError)
   \<and> call_func integer_host F_factorial [VInt (- 3)] = Inl ValueError
   \<and> call_func integer_host F_factorial [VInt 3] = Inr (VInt 6)"
  using factorial_examples[of integer_host "- 3"] factorial_examples[of integer_host 3]
  by (simp add: fact_numeral)

subsection \<open>Names\<close>

text \<open>
  C9: a name other than \<open>pi\<close> and \<open>e\<close> evaluates to ``Unknown identifier'' with the
  name (kind \<open>UnknownIdentifier\<close>), also as a whole expression under \<open>safe_eval\<close>; a
  call of a name that is not a key of the function table evaluates to ``Function is not
  allowed'' with the name (kind \<open>UnknownFunction\<close>), whatever its arguments, which are
  not evaluated; under \<open>safe_eval\<close> that is the result unless the walk finds a lambda among
  the arguments first.
\<close>

theorem unknown_names:
  "(n \<notin> {''pi'', ''e''} \<longrightarrow>
      eval_node h (Name n) = Inl (Unknown_identifier n)
      \<and> safe_eval h (Inr (Expression (Name n))) = Inl (Unknown_identifier n)
      \<and> kind_of (Unknown_identifier n) = UnknownIdentifier)
   \<and> (f \<notin> fst ` set math_funcs \<longrightarrow>
      eval_node h (Call (Name f) args keywords) = Inl (Function_not_allowed f)
      \<and> safe_eval h (Inr (Expression (Call (Name f) args keywords))) =
          (if list_ex disallowed (walk (Call (Name f) args keywords))
           then Inl Disallowed_construct else Inl (Function_not_allowed f))
      \<and> kind_of (Function_not_allowed f) = UnknownFunction)"
proof -
  have "map_of math_funcs f = None" if "f \<notin> fst ` set math_funcs"
    using that by (simp add: map_of_eq_None_iff)
  then show ?thesis by (auto simp: safe_eval_def constants_def)
qed

text \<open>The instances: \<^verbatim>\<open>xyz\<close> and \<^verbatim>\<open>unknown_fn(1)\<close>.\<close>

theorem unknown_names_witness:
  "safe_eval integer_host (Inr (Expression (Name ''xyz''))) = Inl (Unknown_identifier ''xyz'')
   \<and> safe_eval integer_host (Inr (Expression
        (Call (Name ''unknown_fn'') [Constant (CInt 1)] [])))
       = Inl (Function_not_allowed ''unknown_fn'')"
  using unknown_names[of "''xyz''" integer_host "''unknown_fn''" "[Constant (CInt 1)]" "[]"]
  by (simp add: safe_eval_def math_funcs_def)

subsection \<open>Keyword arguments\<close>

text \<open>
  C10: the evaluator never reads the keywords of a call: a call evaluates as the same call
  without them, whatever their values are. \<^verbatim>\<open>log(100, base=10)\<close> is
  \<^verbatim>\<open>math.log\<close> of the one argument 100, the natural logarithm, with the errors of
  that call only. Under \<open>safe_eval\<close> the same holds of every call whose keyword values
  hold no lambda, the one thing that the walk looks for in them.
\<close>

theorem keywords_discarded:
  "eval_node h (Call fn args keywords) = eval_node h (Call fn args [])
   \<and> (\<not> list_ex disallowed (concat (map (\<lambda>kw. walk (snd kw)) keywords)) \<longrightarrow>
        safe_eval h (Inr (Expression (Call fn args keywords)))
          = safe_eval h (Inr (Expression (Call fn args []))))
   \<and> safe_eval h (Inr (Expression
        (Call (Name ''log'') [Constant (CInt 100)] [(Some ''base'', Constant (CInt 10))])))
       = (case math_fn h F_log [VInt 100] of
            Inl TypeError \<Rightarrow> Inl (Bad_arguments_for ''log'' TypeError)
          | Inl x \<Rightarrow> Inl (Error_calling ''log'' x)
          | Inr v \<Rightarrow> Inr v)"
proof -
  have "safe_eval h (Inr (Expression (Call fn args keywords)))
          = safe_eval h (Inr (Expression (Call fn args [])))"
    if "\<not> list_ex disallowed (concat (map (\<lambda>kw. walk (snd kw)) keywords))"
  proof -
    from that have "list_ex disallowed (walk (Expression (Call fn args keywords)))
        = list_ex disallowed (walk (Expression (Call fn args [])))"
      by (auto simp: list_ex_iff)
    then show ?thesis by (simp add: safe_eval_def)
  qed
  then show ?thesis by (simp add: safe_eval_def math_funcs_def)
qed

text \<open>The instance: \<^verbatim>\<open>abs(-3, k=xyz)\<close> is 3, as \<^verbatim>\<open>abs(-3)\<close> is, although
  \<open>xyz\<close> is no known identifier.\<close>

theorem keywords_discarded_witness:
  "safe_eval integer_host (Inr (Expression
      (Call (Name ''abs'') [UnaryOp USub (Constant (CInt 3))] [(Some ''k'', Name ''xyz'')])))
     = safe_eval integer_host (Inr (Expression
      (Call (Name ''abs'') [UnaryOp USub (Constant (CInt 3))] [])))
   \<and> safe_eval integer_host (Inr (Expression
      (Call (Name ''abs'') [UnaryOp USub (Constant (CInt 3))] [(Some ''k'', Name ''xyz'')])))
     = Inr (VInt 3)"
  using keywords_discarded[of integer_host "Name ''abs''"
      "[UnaryOp USub (Constant (CInt 3))]" "[(Some ''k'', Name ''xyz'')]"]
  by (simp add: safe_eval_def math_funcs_def allowed_unaryops_def)

end
